theory Spec2Isabelle
  imports Complex_Main "HOL-Library.Word"
begin

unbundle bit_operations_syntax

section \<open>Dance Companion: mirrored pose overlay\<close>

text \<open>
  A shallow embedding of \<^verbatim>\<open>utils/pose_visualizer.py\<close>, \<^verbatim>\<open>utils/video_source.py\<close>,
  \<^verbatim>\<open>utils/pose_detector.py\<close> and of the two entry points \<^verbatim>\<open>dance_companion.py\<close>
  (function \<^verbatim>\<open>main\<close>) and \<^verbatim>\<open>app.py\<close> (module-level script).
\<close>

subsection \<open>Python values\<close>

text \<open>
  The exceptions that can occur. \<open>ExternalError\<close> stands for any exception derived from
  \<^verbatim>\<open>Exception\<close> that OpenCV or MediaPipe raises (its tag tells them apart);
  \<open>KeyboardInterrupt\<close> derives from \<^verbatim>\<open>BaseException\<close> only, so that
  \<^verbatim>\<open>except Exception\<close> does not catch it.
\<close>

datatype py_exc =
    ValueError
  | OverflowError
  | KeyError
  | UnboundLocalError
  | ExternalError nat
  | KeyboardInterrupt

fun is_Exception :: "py_exc \<Rightarrow> bool" where
  "is_Exception KeyboardInterrupt = False"
| "is_Exception _ = True"

text \<open>
  A Python \<^verbatim>\<open>float\<close>: a finite value is the rational number it denotes; the three
  non-finite values are kept apart because \<^verbatim>\<open>int()\<close> raises on them. The product
  of a float and an \<^verbatim>\<open>int\<close> is modelled without rounding. (MediaPipe stores landmark
  coordinates in single precision, 24 significant bits, so for frame dimensions below
  \<open>2^29\<close> the double-precision product is exact.)
\<close>

datatype pyfloat = Finite rat | PosInf | NegInf | NaN

fun float_mul_int :: "pyfloat \<Rightarrow> int \<Rightarrow> pyfloat" where
  "float_mul_int (Finite r) n = Finite (r * of_int n)"
| "float_mul_int NaN n = NaN"
| "float_mul_int PosInf n = (if n = 0 then NaN else if 0 < n then PosInf else NegInf)"
| "float_mul_int NegInf n = (if n = 0 then NaN else if 0 < n then NegInf else PosInf)"

text \<open>Truncation toward zero, which is what \<^verbatim>\<open>int(f)\<close> does on a finite float.\<close>

definition trunc :: "rat \<Rightarrow> int" where
  "trunc r = (if r < 0 then \<lceil>r\<rceil> else \<lfloor>r\<rfloor>)"

fun py_int :: "pyfloat \<Rightarrow> py_exc + int" where
  "py_int (Finite r) = Inr (trunc r)"
| "py_int NaN = Inl ValueError"
| "py_int PosInf = Inl OverflowError"
| "py_int NegInf = Inl OverflowError"

text \<open>
  A \<^verbatim>\<open>dict\<close> keeps its keys in insertion order; assigning to a key that is present
  replaces the value in place, assigning to a new key appends.
\<close>

type_synonym ('k, 'v) dict = "('k \<times> 'v) list"

fun dict_setitem :: "('k, 'v) dict \<Rightarrow> 'k \<Rightarrow> 'v \<Rightarrow> ('k, 'v) dict" where
  "dict_setitem [] k v = [(k, v)]"
| "dict_setitem ((k', v') # d) k v =
     (if k' = k then (k, v) # d else (k', v') # dict_setitem d k v)"

definition dict_contains :: "('k, 'v) dict \<Rightarrow> 'k \<Rightarrow> bool" where
  "dict_contains d k = (k \<in> set (map fst d))"

definition dict_getitem :: "('k, 'v) dict \<Rightarrow> 'k \<Rightarrow> py_exc + 'v" where
  "dict_getitem d k = (case map_of d k of None \<Rightarrow> Inl KeyError | Some v \<Rightarrow> Inr v)"

definition dict_values :: "('k, 'v) dict \<Rightarrow> 'v list" where
  "dict_values d = map snd d"

definition dict_keys :: "('k, 'v) dict \<Rightarrow> 'k list" where
  "dict_keys d = map fst d"

subsection \<open>PoseVisualizer: configuration and the mirror transform\<close>

type_synonym point = "int \<times> int"
type_synonym colour = "int \<times> int \<times> int"

record visualizer =
  landmark_color :: colour
  connection_color :: colour
  circle_radius :: int
  line_thickness :: int
  offset_x :: int

text \<open>The constructor with its default arguments.\<close>

definition PoseVisualizer :: "colour \<Rightarrow> colour \<Rightarrow> int \<Rightarrow> int \<Rightarrow> int \<Rightarrow> visualizer" where
  "PoseVisualizer lc cc r t dx =
     \<lparr>landmark_color = lc, connection_color = cc, circle_radius = r,
      line_thickness = t, offset_x = dx\<rparr>"

definition default_landmark_color :: colour where
  "default_landmark_color = (255, 0, 0)"

definition default_connection_color :: colour where
  "default_connection_color = (0, 0, 255)"

text \<open>A MediaPipe landmark: normalized position, depth and visibility.\<close>

record landmark =
  x :: pyfloat
  y :: pyfloat
  z :: pyfloat
  visibility :: pyfloat

text \<open>
  The body of the loop of \<^verbatim>\<open>create_mirrored_landmarks\<close> for one landmark:
  \<^verbatim>\<open>x = int(lm.x * w); y = int(lm.y * h); mirror_x = w - x + self.offset_x\<close>.
\<close>

definition mirror_landmark :: "visualizer \<Rightarrow> int \<Rightarrow> int \<Rightarrow> landmark \<Rightarrow> py_exc + point" where
  "mirror_landmark self h w lm =
     (case py_int (float_mul_int (x lm) w) of
        Inl e \<Rightarrow> Inl e
      | Inr px \<Rightarrow>
          (case py_int (float_mul_int (y lm) h) of
             Inl e \<Rightarrow> Inl e
           | Inr py \<Rightarrow> Inr (w - px + offset_x self, py)))"

text \<open>
  \<^verbatim>\<open>for idx, lm in enumerate(landmarks.landmark): ... mirrored_landmarks[idx] = (mirror_x, y)\<close>,
  with the running index and the dictionary built so far.
\<close>

fun mirror_loop ::
  "visualizer \<Rightarrow> int \<Rightarrow> int \<Rightarrow> nat \<Rightarrow> landmark list \<Rightarrow> (nat, point) dict
     \<Rightarrow> py_exc + (nat, point) dict" where
  "mirror_loop self h w idx [] d = Inr d"
| "mirror_loop self h w idx (lm # lms) d =
     (case mirror_landmark self h w lm of
        Inl e \<Rightarrow> Inl e
      | Inr p \<Rightarrow> mirror_loop self h w (Suc idx) lms (dict_setitem d idx p))"

definition create_mirrored_landmarks ::
  "visualizer \<Rightarrow> landmark list \<Rightarrow> int \<times> int \<times> int \<Rightarrow> py_exc + (nat, point) dict" where
  "create_mirrored_landmarks self landmarks frame_shape =
     (case frame_shape of (h, w, _) \<Rightarrow> mirror_loop self h w 0 landmarks [])"

text \<open>A landmark whose two coordinates are finite numbers.\<close>

fun is_finite :: "pyfloat \<Rightarrow> bool" where
  "is_finite (Finite r) = True"
| "is_finite _ = False"

fun the_rat :: "pyfloat \<Rightarrow> rat" where
  "the_rat (Finite r) = r"
| "the_rat _ = 0"

definition finite_landmark :: "landmark \<Rightarrow> bool" where
  "finite_landmark lm = (is_finite (x lm) \<and> is_finite (y lm))"


subsection \<open>Frames, the store of arrays, and the observable world\<close>

text \<open>
  A frame is a NumPy array of unsigned 8-bit channels: its shape (height, width,
  channels) and its elements in row-major order. Arrays are mutable objects that the
  code shares by reference, so they live in a store and are named by their address
  (the position in the store); a new array is put at the end.
\<close>

record ndarray =
  shape :: "nat \<times> nat \<times> nat"
  data :: "8 word list"

type_synonym addr = nat

text \<open>The calls of the OpenCV drawing functions, in the order they are made.\<close>

datatype draw_call =
    Circle addr point int colour int
  | Line addr point point colour int

text \<open>What \<^verbatim>\<open>print\<close> writes: \<^verbatim>\<open>print(f"Error: {e}")\<close> and the closing message.\<close>

datatype console_line = PrintError py_exc | PrintClosed

record world =
  heap :: "ndarray list"
  drawn :: "draw_call list"
  reads :: nat
  detections :: nat
  shown :: "(string \<times> ndarray) list"
  polls :: nat
  releases :: nat
  destroyed :: nat
  console :: "console_line list"

definition init_world :: world where
  "init_world =
     \<lparr>heap = [], drawn = [], reads = 0, detections = 0, shown = [], polls = 0,
      releases = 0, destroyed = 0, console = []\<rparr>"

definition alloc :: "ndarray \<Rightarrow> world \<Rightarrow> addr \<times> world" where
  "alloc a w = (length (heap w), w\<lparr>heap := heap w @ [a]\<rparr>)"

text \<open>\<^verbatim>\<open>np.zeros_like(frame)\<close>: a new array of the same shape and element type, all zero.\<close>

definition zeros_like :: "ndarray \<Rightarrow> ndarray" where
  "zeros_like a = a\<lparr>data := replicate (length (data a)) 0\<rparr>"

definition np_zeros_like :: "addr \<Rightarrow> world \<Rightarrow> addr \<times> world" where
  "np_zeros_like frame w = alloc (zeros_like (heap w ! frame)) w"

text \<open>
  The rasterisers \<^verbatim>\<open>cv2.circle\<close> and \<^verbatim>\<open>cv2.line\<close> belong to OpenCV, not to this
  program: the renderer takes them as parameters, as functions on the contents of the
  array that they overwrite in place.
\<close>

record cv2_lib =
  cv2_circle :: "ndarray \<Rightarrow> point \<Rightarrow> int \<Rightarrow> colour \<Rightarrow> int \<Rightarrow> ndarray"
  cv2_line :: "ndarray \<Rightarrow> point \<Rightarrow> point \<Rightarrow> colour \<Rightarrow> int \<Rightarrow> ndarray"

definition circle ::
  "cv2_lib \<Rightarrow> addr \<Rightarrow> point \<Rightarrow> int \<Rightarrow> colour \<Rightarrow> int \<Rightarrow> world \<Rightarrow> world" where
  "circle lib img center radius color thickness w =
     w\<lparr>heap := (heap w)[img := cv2_circle lib (heap w ! img) center radius color thickness],
       drawn := drawn w @ [Circle img center radius color thickness]\<rparr>"

definition line ::
  "cv2_lib \<Rightarrow> addr \<Rightarrow> point \<Rightarrow> point \<Rightarrow> colour \<Rightarrow> int \<Rightarrow> world \<Rightarrow> world" where
  "line lib img pt1 pt2 color thickness w =
     w\<lparr>heap := (heap w)[img := cv2_line lib (heap w ! img) pt1 pt2 color thickness],
       drawn := drawn w @ [Line img pt1 pt2 color thickness]\<rparr>"

subsection \<open>PoseVisualizer: renderer and compositor\<close>

text \<open>
  \<^verbatim>\<open>for position in mirrored_landmarks.values(): cv2.circle(replica, position, ...)\<close>
\<close>

fun draw_circles :: "cv2_lib \<Rightarrow> visualizer \<Rightarrow> addr \<Rightarrow> point list \<Rightarrow> world \<Rightarrow> world" where
  "draw_circles lib self replica [] w = w"
| "draw_circles lib self replica (position # ps) w =
     draw_circles lib self replica ps
       (circle lib replica position (circle_radius self) (landmark_color self) (- 1) w)"

text \<open>
  The loop over the connections. \<^verbatim>\<open>mirrored_landmarks[start_idx]\<close> raises
  \<^verbatim>\<open>KeyError\<close> on a missing key; it is evaluated under the test of membership only.
\<close>

fun draw_lines ::
  "cv2_lib \<Rightarrow> visualizer \<Rightarrow> addr \<Rightarrow> (nat, point) dict \<Rightarrow> (nat \<times> nat) list \<Rightarrow> world
     \<Rightarrow> (py_exc + unit) \<times> world" where
  "draw_lines lib self replica ml [] w = (Inr (), w)"
| "draw_lines lib self replica ml ((start_idx, end_idx) # cs) w =
     (if dict_contains ml start_idx \<and> dict_contains ml end_idx then
        (case dict_getitem ml start_idx of
           Inl e \<Rightarrow> (Inl e, w)
         | Inr p \<Rightarrow>
             (case dict_getitem ml end_idx of
                Inl e \<Rightarrow> (Inl e, w)
              | Inr q \<Rightarrow>
                  draw_lines lib self replica ml cs
                    (line lib replica p q (connection_color self) (line_thickness self) w)))
      else draw_lines lib self replica ml cs w)"

definition draw_mirrored_pose ::
  "cv2_lib \<Rightarrow> visualizer \<Rightarrow> addr \<Rightarrow> (nat, point) dict \<Rightarrow> (nat \<times> nat) list \<Rightarrow> world
     \<Rightarrow> (py_exc + addr) \<times> world" where
  "draw_mirrored_pose lib self frame mirrored_landmarks connections w =
     (case np_zeros_like frame w of
        (replica, w1) \<Rightarrow>
          (case draw_lines lib self replica mirrored_landmarks connections
                  (draw_circles lib self replica (dict_values mirrored_landmarks) w1) of
             (Inl e, w2) \<Rightarrow> (Inl e, w2)
           | (Inr u, w2) \<Rightarrow> (Inr replica, w2)))"

text \<open>
  Modelled from the spec: the saturation of \<^verbatim>\<open>cv2.add\<close>, a function of OpenCV that
  is absent from the sources. A channel is clamped to the maximum representable value,
  255 for 8-bit channels.
\<close>

definition saturate_u8 :: "int \<Rightarrow> 8 word" where
  "saturate_u8 n = (if 255 < n then 255 else if n < 0 then 0 else word_of_int n)"

text \<open>The error that OpenCV raises, an exception derived from \<^verbatim>\<open>Exception\<close>.\<close>

definition cv2_error :: py_exc where
  "cv2_error = ExternalError 0"

text \<open>
  Modelled from the spec: \<^verbatim>\<open>cv2.add\<close>, a function of OpenCV that is absent from the
  sources. For two arrays of identical dimensions and pixel format it is the per-channel
  saturating addition of the two; on arrays of different dimensions OpenCV raises its
  error.
\<close>

definition cv2_add :: "ndarray \<Rightarrow> ndarray \<Rightarrow> py_exc + ndarray" where
  "cv2_add a b =
     (if shape a = shape b \<and> length (data a) = length (data b)
      then Inr \<lparr>shape = shape a,
                data = map2 (\<lambda>p q. saturate_u8 (uint p + uint q)) (data a) (data b)\<rparr>
      else Inl cv2_error)"

text \<open>\<^verbatim>\<open>return cv2.add(frame, replica)\<close>: the sum is a new array.\<close>

definition create_composite :: "addr \<Rightarrow> addr \<Rightarrow> world \<Rightarrow> (py_exc + addr) \<times> world" where
  "create_composite frame replica w =
     (case cv2_add (heap w ! frame) (heap w ! replica) of
        Inl e \<Rightarrow> (Inl e, w)
      | Inr a \<Rightarrow> (case alloc a w of (composite, w1) \<Rightarrow> (Inr composite, w1)))"

subsection \<open>The outside world: capture device, detector, display\<close>

text \<open>
  What the program is given: the video source named on the command line, and for each
  call of an OpenCV or MediaPipe function what that call answers (a value, or the
  exception it raises). \<open>cap_read env n\<close> is the answer of the \<open>n\<close>-th call of
  \<^verbatim>\<open>cap.read()\<close>, \<open>None\<close> for \<^verbatim>\<open>(False, None)\<close>; \<open>pose_process env n a\<close> is the
  \<^verbatim>\<open>pose_landmarks\<close> field of what the \<open>n\<close>-th call of the detector finds in the
  image \<open>a\<close> (colour conversion included).
\<close>

datatype source = Path string | Device int | NoSource

record env =
  cap_isOpened :: "source \<Rightarrow> bool"
  cap_read :: "nat \<Rightarrow> py_exc + ndarray option"
  pose_init :: "py_exc option"
  pose_process :: "nat \<Rightarrow> ndarray \<Rightarrow> py_exc + landmark list option"
  pose_connections :: "(nat \<times> nat) list"
  namedWindow :: "py_exc option"
  imshow :: "nat \<Rightarrow> py_exc option"
  waitKey :: "nat \<Rightarrow> py_exc + int"
  cv2 :: cv2_lib

text \<open>A computation that changes the world and returns a value or raises.\<close>

type_synonym 'a action = "world \<Rightarrow> (py_exc + 'a) \<times> world"

definition and_then :: "'a action \<Rightarrow> ('a \<Rightarrow> 'b action) \<Rightarrow> 'b action" where
  "and_then m f w = (case m w of (Inl e, w1) \<Rightarrow> (Inl e, w1) | (Inr a, w1) \<Rightarrow> f a w1)"

definition raise :: "py_exc \<Rightarrow> 'a action" where
  "raise e w = (Inl e, w)"

definition return :: "'a \<Rightarrow> 'a action" where
  "return a w = (Inr a, w)"

text \<open>
  \<^verbatim>\<open>VideoSource.__init__\<close>: \<^verbatim>\<open>if not self.cap.isOpened(): raise ValueError(...)\<close>.
\<close>

definition VideoSource :: "env \<Rightarrow> source \<Rightarrow> unit action" where
  "VideoSource env src = (if cap_isOpened env src then return () else raise ValueError)"

definition read_frame :: "env \<Rightarrow> addr option action" where
  "read_frame env w =
     (let w1 = w\<lparr>reads := Suc (reads w)\<rparr> in
      case cap_read env (reads w) of
        Inl e \<Rightarrow> (Inl e, w1)
      | Inr None \<Rightarrow> (Inr None, w1)
      | Inr (Some a) \<Rightarrow> (case alloc a w1 of (frame, w2) \<Rightarrow> (Inr (Some frame), w2)))"

definition release :: "world \<Rightarrow> world" where
  "release w = w\<lparr>releases := Suc (releases w)\<rparr>"

definition detect_landmarks :: "env \<Rightarrow> addr \<Rightarrow> landmark list option action" where
  "detect_landmarks env frame w =
     (pose_process env (detections w) (heap w ! frame),
      w\<lparr>detections := Suc (detections w)\<rparr>)"

definition get_pose_connections :: "env \<Rightarrow> (nat \<times> nat) list" where
  "get_pose_connections env = pose_connections env"

definition cv2_imshow :: "env \<Rightarrow> string \<Rightarrow> addr \<Rightarrow> unit action" where
  "cv2_imshow env winname img w =
     (case imshow env (length (shown w)) of Some e \<Rightarrow> Inl e | None \<Rightarrow> Inr (),
      w\<lparr>shown := shown w @ [(winname, heap w ! img)]\<rparr>)"

definition cv2_waitKey :: "env \<Rightarrow> int \<Rightarrow> int action" where
  "cv2_waitKey env delay w = (waitKey env (polls w), w\<lparr>polls := Suc (polls w)\<rparr>)"

definition destroyAllWindows :: "world \<Rightarrow> world" where
  "destroyAllWindows w = w\<lparr>destroyed := Suc (destroyed w)\<rparr>"

definition print :: "console_line \<Rightarrow> world \<Rightarrow> world" where
  "print l w = w\<lparr>console := console w @ [l]\<rparr>"

definition frame_shape_of :: "ndarray \<Rightarrow> int \<times> int \<times> int" where
  "frame_shape_of a = (case shape a of (h, w, c) \<Rightarrow> (int h, int w, int c))"

subsection \<open>The processing loop\<close>

text \<open>
  One iteration of \<^verbatim>\<open>while True:\<close>, the same in both entry points but for the name
  of the window. \<^verbatim>\<open>ord('q')\<close> is 113.
\<close>

datatype loop_ctl = Continue | Break

definition show_mirrored :: "env \<Rightarrow> visualizer \<Rightarrow> string \<Rightarrow> addr \<Rightarrow> landmark list \<Rightarrow> unit action" where
  "show_mirrored env pv winname frame lms w =
     (case create_mirrored_landmarks pv lms (frame_shape_of (heap w ! frame)) of
        Inl e \<Rightarrow> (Inl e, w)
      | Inr mirrored_landmarks \<Rightarrow>
          and_then (draw_mirrored_pose (cv2 env) pv frame mirrored_landmarks
                      (get_pose_connections env))
            (\<lambda>replica. and_then (create_composite frame replica)
               (\<lambda>composite. cv2_imshow env winname composite)) w)"

definition loop_body :: "env \<Rightarrow> visualizer \<Rightarrow> string \<Rightarrow> loop_ctl action" where
  "loop_body env pv winname =
     and_then (read_frame env)
       (\<lambda>r. case r of
          None \<Rightarrow> return Break
        | Some frame \<Rightarrow>
            and_then (detect_landmarks env frame)
              (\<lambda>pose_landmarks.
                 and_then
                   (case pose_landmarks of
                      Some lms \<Rightarrow> show_mirrored env pv winname frame lms
                    | None \<Rightarrow> cv2_imshow env winname frame)
                   (\<lambda>u. and_then (cv2_waitKey env 30)
                      (\<lambda>key. if key AND 255 = 113 then return Break else return Continue))))"

text \<open>
  The loop itself. A camera can deliver frames for ever, so the loop need not return:
  \<open>None\<close> is the run that never leaves the loop.
\<close>

partial_function (option) loop ::
  "env \<Rightarrow> visualizer \<Rightarrow> string \<Rightarrow> world \<Rightarrow> ((py_exc + unit) \<times> world) option" where
  "loop env pv winname w =
     (case loop_body env pv winname w of
        (Inl e, w1) \<Rightarrow> Some (Inl e, w1)
      | (Inr Break, w1) \<Rightarrow> Some (Inr (), w1)
      | (Inr Continue, w1) \<Rightarrow> loop env pv winname w1)"

subsection \<open>Entry point of the command line: dance\_companion.main\<close>

record args =
  input :: "string option"
  webcam :: "int option"
  offset :: int
  radius :: int
  thickness :: int

text \<open>\<^verbatim>\<open>source = args.input if args.input else args.webcam\<close>\<close>

definition select_source :: "args \<Rightarrow> source" where
  "select_source a =
     (case input a of
        Some s \<Rightarrow> if s \<noteq> [] then Path s
                  else (case webcam a of Some i \<Rightarrow> Device i | None \<Rightarrow> NoSource)
      | None \<Rightarrow> (case webcam a of Some i \<Rightarrow> Device i | None \<Rightarrow> NoSource))"

definition window_name :: string where
  "window_name = ''Dance Companion - Pose Mirroring''"

text \<open>
  The body of \<^verbatim>\<open>try:\<close>. Beside its outcome it tells whether the local variable
  \<^verbatim>\<open>video_source\<close> has been assigned: the constructor raises before the assignment.
\<close>

definition try_block ::
  "env \<Rightarrow> args \<Rightarrow> world \<Rightarrow> ((py_exc + unit) \<times> bool \<times> world) option" where
  "try_block env a w =
     (case VideoSource env (select_source a) w of
        (Inl e, w1) \<Rightarrow> Some (Inl e, False, w1)
      | (Inr u, w1) \<Rightarrow>
          (case pose_init env of
             Some e \<Rightarrow> Some (Inl e, True, w1)
           | None \<Rightarrow>
               (let pose_visualizer =
                      PoseVisualizer default_landmark_color default_connection_color
                        (radius a) (thickness a) (offset a)
                in case namedWindow env of
                     Some e \<Rightarrow> Some (Inl e, True, w1)
                   | None \<Rightarrow>
                       (case loop env pose_visualizer window_name w1 of
                          None \<Rightarrow> None
                        | Some (r, w2) \<Rightarrow> Some (r, True, w2)))))"

text \<open>\<^verbatim>\<open>except Exception as e: print(f"Error: {e}")\<close>\<close>

definition except_block :: "(py_exc + unit) \<times> world \<Rightarrow> (py_exc + unit) \<times> world" where
  "except_block rw =
     (case rw of
        (Inl e, w) \<Rightarrow> if is_Exception e then (Inr (), print (PrintError e) w) else (Inl e, w)
      | (Inr u, w) \<Rightarrow> (Inr u, w))"

text \<open>
  \<^verbatim>\<open>finally: video_source.release(); cv2.destroyAllWindows(); print(...)\<close>. Reading
  the unassigned \<^verbatim>\<open>video_source\<close> raises \<^verbatim>\<open>UnboundLocalError\<close>, which replaces
  the pending outcome and leaves the function.
\<close>

definition finally_block :: "bool \<Rightarrow> (py_exc + unit) \<times> world \<Rightarrow> (py_exc + unit) \<times> world" where
  "finally_block bound rw =
     (case rw of
        (r, w) \<Rightarrow>
          if bound then (r, print PrintClosed (destroyAllWindows (release w)))
          else (Inl UnboundLocalError, w))"

definition main :: "env \<Rightarrow> args \<Rightarrow> ((py_exc + unit) \<times> world) option" where
  "main env a =
     (case try_block env a init_world of
        None \<Rightarrow> None
      | Some (r, bound, w) \<Rightarrow> Some (finally_block bound (except_block (r, w))))"

subsection \<open>The script app.py\<close>

definition app_window :: string where
  "app_window = ''Video with Replicated Landmarks Overlay''"

definition app_source :: source where
  "app_source = Path ''videoplayback.mp4''"

text \<open>
  The statements of the module in their order; there is no handler, an exception of
  any statement ends the script there.
\<close>

definition app :: "env \<Rightarrow> ((py_exc + unit) \<times> world) option" where
  "app env =
     (case pose_init env of
        Some e \<Rightarrow> Some (Inl e, init_world)
      | None \<Rightarrow>
          (case VideoSource env app_source init_world of
             (Inl e, w1) \<Rightarrow> Some (Inl e, w1)
           | (Inr u, w1) \<Rightarrow>
               (let pose_visualizer = PoseVisualizer (255, 0, 0) (0, 0, 255) 3 2 150
                in case loop env pose_visualizer app_window w1 of
                     None \<Rightarrow> None
                   | Some (Inl e, w2) \<Rightarrow> Some (Inl e, w2)
                   | Some (Inr u, w2) \<Rightarrow> Some (Inr (), destroyAllWindows (release w2)))))"

subsection \<open>Auxiliary notions for the statements\<close>

text \<open>The entry that the loop of \<open>create_mirrored_landmarks\<close> stores for a finite landmark.\<close>

definition mirrored_point :: "visualizer \<Rightarrow> int \<Rightarrow> int \<Rightarrow> landmark \<Rightarrow> point" where
  "mirrored_point self h w lm =
     (w - trunc (the_rat (x lm) * of_int w) + offset_x self, trunc (the_rat (y lm) * of_int h))"

text \<open>
  Sample data: the landmark at the centre of the frame, and the visualizer that the
  command line builds for a given offset.
\<close>

definition demo_landmark :: landmark where
  "demo_landmark = \<lparr>x = Finite (1 / 2), y = Finite (1 / 2), z = Finite 0, visibility = Finite 1\<rparr>"

definition demo_visualizer :: "int \<Rightarrow> visualizer" where
  "demo_visualizer dx = PoseVisualizer default_landmark_color default_connection_color 3 2 dx"

subsection \<open>Auxiliary notions for the renderer\<close>

text \<open>
  The effect of a recorded drawing call on the contents of an array, the array a call
  draws on, and the calls that the renderer is expected to make: a circle for every value
  of the map, and for a connection one line if both its indices are keys, none otherwise.
\<close>

fun apply_call :: "cv2_lib \<Rightarrow> draw_call \<Rightarrow> ndarray \<Rightarrow> ndarray" where
  "apply_call lib (Circle img center r col t) a = cv2_circle lib a center r col t"
| "apply_call lib (Line img p q col t) a = cv2_line lib a p q col t"


definition circle_calls :: "visualizer \<Rightarrow> addr \<Rightarrow> (nat, point) dict \<Rightarrow> draw_call list" where
  "circle_calls self replica ml =
     map (\<lambda>p. Circle replica p (circle_radius self) (landmark_color self) (- 1)) (dict_values ml)"

definition line_call_of :: "visualizer \<Rightarrow> addr \<Rightarrow> (nat, point) dict \<Rightarrow> nat \<times> nat \<Rightarrow> draw_call list" where
  "line_call_of self replica ml conn =
     (case map_of ml (fst conn) of
        None \<Rightarrow> []
      | Some p \<Rightarrow>
          (case map_of ml (snd conn) of
             None \<Rightarrow> []
           | Some q \<Rightarrow> [Line replica p q (connection_color self) (line_thickness self)]))"

definition line_calls :: "visualizer \<Rightarrow> addr \<Rightarrow> (nat, point) dict \<Rightarrow> (nat \<times> nat) list \<Rightarrow> draw_call list" where
  "line_calls self replica ml conns = concat (map (line_call_of self replica ml) conns)"

definition after_calls :: "cv2_lib \<Rightarrow> addr \<Rightarrow> draw_call list \<Rightarrow> world \<Rightarrow> world" where
  "after_calls lib img cs w =
     w\<lparr>heap := (heap w)[img := fold (apply_call lib) cs (heap w ! img)],
       drawn := drawn w @ cs\<rparr>"

text \<open>Sample arrays of one pixel, and a world whose store holds the two.\<close>

definition demo_frame :: ndarray where
  "demo_frame = \<lparr>shape = (1, 1, 3), data = [200, 10, 0]\<rparr>"

definition demo_canvas :: ndarray where
  "demo_canvas = \<lparr>shape = (1, 1, 3), data = [100, 20, 255]\<rparr>"

definition demo_world :: world where
  "demo_world = init_world\<lparr>heap := [demo_frame, demo_canvas]\<rparr>"

text \<open>A stand-in for the rasterisers: it overwrites every channel with the first colour component.\<close>

definition flood :: "ndarray \<Rightarrow> colour \<Rightarrow> ndarray" where
  "flood a col = a\<lparr>data := map (\<lambda>_. word_of_int (fst col)) (data a)\<rparr>"

definition demo_lib :: cv2_lib where
  "demo_lib = \<lparr>cv2_circle = (\<lambda>a center r col t. flood a col),
               cv2_line = (\<lambda>a p q col t. flood a col)\<rparr>"

subsection \<open>Auxiliary notions for the processing loop\<close>

text \<open>
  Two states of the world between which nothing was released, no window destroyed and
  nothing printed: what every step of the loop guarantees.
\<close>

definition steady :: "world \<Rightarrow> world \<Rightarrow> bool" where
  "steady w w' =
     (releases w' = releases w \<and> destroyed w' = destroyed w \<and> console w' = console w)"

text \<open>An answer of \<^verbatim>\<open>cap.read()\<close> that delivers a frame.\<close>

fun is_frame :: "py_exc + ndarray option \<Rightarrow> bool" where
  "is_frame (Inr (Some a)) = True"
| "is_frame _ = False"

text \<open>
  Sample surroundings: a source that opens and is exhausted at once; one that cannot be
  opened; one whose detector raises on the first frame; and one that delivers frames
  with a pose until the key \<^verbatim>\<open>q\<close> arrives at the second poll.
\<close>

definition demo_env :: env where
  "demo_env =
     \<lparr>cap_isOpened = (\<lambda>src. True),
      cap_read = (\<lambda>n. Inr None),
      pose_init = None,
      pose_process = (\<lambda>n a. Inr None),
      pose_connections = [(0, 1)],
      namedWindow = None,
      imshow = (\<lambda>n. None),
      waitKey = (\<lambda>n. Inr (- 1)),
      cv2 = demo_lib\<rparr>"

definition demo_args :: args where
  "demo_args = \<lparr>input = Some ''dance.mp4'', webcam = None, offset = 150, radius = 3, thickness = 2\<rparr>"

definition closed_env :: env where
  "closed_env = demo_env\<lparr>cap_isOpened := (\<lambda>src. False)\<rparr>"

definition raising_env :: env where
  "raising_env = demo_env\<lparr>cap_read := (\<lambda>n. Inr (Some demo_frame)),
                           pose_process := (\<lambda>n a. Inl (ExternalError 1))\<rparr>"

definition dancing_env :: env where
  "dancing_env = demo_env\<lparr>cap_read := (\<lambda>n. Inr (Some demo_frame)),
                           pose_process := (\<lambda>n a. Inr (Some [demo_landmark])),
                           waitKey := (\<lambda>n. if n = 0 then Inr (- 1) else Inr 113)\<rparr>"

text \<open>The world of the last sample after its first iteration.\<close>

definition after_first_iteration :: world where
  "after_first_iteration =
     init_world\<lparr>heap := [demo_frame,
                            \<lparr>shape = (1, 1, 3), data = [255, 255, 255]\<rparr>,
                            \<lparr>shape = (1, 1, 3), data = [255, 255, 255]\<rparr>],
                  drawn := [Circle 1 (151, 0) 3 (255, 0, 0) (- 1)],
                  reads := 1, detections := 1,
                  shown := [(window_name, \<lparr>shape = (1, 1, 3), data = [255, 255, 255]\<rparr>)],
                  polls := 1\<rparr>"

section \<open>Properties of the mirror transform\<close>


lemma dict_setitem_fresh: "k \<notin> set (dict_keys d) \<Longrightarrow> dict_setitem d k v = d @ [(k, v)]"
  by (induction d) (auto simp: dict_keys_def)

lemma mirror_landmark_finite:
  "finite_landmark lm \<Longrightarrow> mirror_landmark self h w lm = Inr (mirrored_point self h w lm)"
  by (cases "x lm"; cases "y lm") (simp_all add: finite_landmark_def mirror_landmark_def mirrored_point_def)

lemma mirror_landmark_Inr:
  "mirror_landmark self h w lm = Inr p \<Longrightarrow> finite_landmark lm"
  by (cases "x lm"; cases "y lm") (simp_all add: finite_landmark_def mirror_landmark_def split: if_splits)

lemma mirror_loop_finite:
  "\<forall>lm \<in> set lms. finite_landmark lm \<Longrightarrow> dict_keys d = [0..<idx] \<Longrightarrow>
   mirror_loop self h w idx lms d =
     Inr (d @ map (\<lambda>(i, lm). (i, mirrored_point self h w lm)) (zip [idx..<idx + length lms] lms))"
proof (induction lms arbitrary: idx d)
  case Nil
  then show ?case by simp
next
  case (Cons lm lms)
  have fresh: "idx \<notin> set (dict_keys d)" using Cons.prems(2) by simp
  have keys: "dict_keys (d @ [(idx, mirrored_point self h w lm)]) = [0..<Suc idx]"
    using Cons.prems(2) by (simp add: dict_keys_def)
  have "mirror_loop self h w idx (lm # lms) d =
        mirror_loop self h w (Suc idx) lms (d @ [(idx, mirrored_point self h w lm)])"
    using Cons.prems(1) fresh by (simp add: mirror_landmark_finite dict_setitem_fresh)
  also have "\<dots> = Inr ((d @ [(idx, mirrored_point self h w lm)]) @
       map (\<lambda>(i, lm). (i, mirrored_point self h w lm)) (zip [Suc idx..<Suc idx + length lms] lms))"
    using Cons.prems(1) by (intro Cons.IH keys) simp
  also have "\<dots> = Inr (d @ map (\<lambda>(i, lm). (i, mirrored_point self h w lm))
       (zip [idx..<idx + length (lm # lms)] (lm # lms)))"
  proof -
    have "[idx..<idx + length (lm # lms)] = idx # [Suc idx..<Suc idx + length lms]"
      by (simp add: upt_conv_Cons del: upt_Suc)
    then show ?thesis by (simp del: upt_Suc)
  qed
  finally show ?case .
qed

lemma mirror_loop_keys:
  "mirror_loop self h w idx lms d = Inr m \<Longrightarrow> dict_keys d = [0..<idx] \<Longrightarrow>
   dict_keys m = [0..<idx + length lms]"
proof (induction lms arbitrary: idx d)
  case Nil
  then show ?case by simp
next
  case (Cons lm lms)
  from Cons.prems(1) obtain p where p: "mirror_landmark self h w lm = Inr p"
    and rest: "mirror_loop self h w (Suc idx) lms (dict_setitem d idx p) = Inr m"
    by (auto split: sum.splits)
  have fresh: "idx \<notin> set (dict_keys d)" using Cons.prems(2) by simp
  have "dict_keys (dict_setitem d idx p) = [0..<Suc idx]"
    using Cons.prems(2) by (simp add: dict_setitem_fresh [OF fresh]) (simp add: dict_keys_def)
  from Cons.IH [OF rest this] show ?case by simp
qed

lemma create_mirrored_landmarks_finite:
  assumes "\<forall>lm \<in> set lms. finite_landmark lm"
  shows "create_mirrored_landmarks self lms (h, w, c) =
     Inr (map (\<lambda>(i, lm). (i, mirrored_point self h w lm)) (zip [0..<length lms] lms))"
  using mirror_loop_finite [OF assms, of "[]" 0 self h w]
  by (simp add: create_mirrored_landmarks_def dict_keys_def)




text \<open>
  Claim C8. The mirrored map has exactly one entry for every index of the input: its
  keys are \<open>0, \<dots>, n - 1\<close> in this order, without repetition, whenever the function
  returns; and it returns for every input whose coordinates are finite numbers.
\<close>

theorem mirror_keys_exact:
  "((\<forall>lm \<in> set lms. finite_landmark lm) \<longrightarrow>
      (\<exists>m. create_mirrored_landmarks self lms (h, w, c) = Inr m))
   \<and> (\<forall>m. create_mirrored_landmarks self lms (h, w, c) = Inr m \<longrightarrow>
         dict_keys m = [0..<length lms] \<and> distinct (dict_keys m)
         \<and> set (dict_keys m) = {i. i < length lms} \<and> length m = length lms)"
proof (intro conjI impI allI)
  assume "\<forall>lm \<in> set lms. finite_landmark lm"
  then show "\<exists>m. create_mirrored_landmarks self lms (h, w, c) = Inr m"
    by (simp add: create_mirrored_landmarks_finite)
next
  fix m assume "create_mirrored_landmarks self lms (h, w, c) = Inr m"
  then have "mirror_loop self h w 0 lms [] = Inr m"
    by (simp add: create_mirrored_landmarks_def)
  then have k: "dict_keys m = [0..<0 + length lms]"
    by (rule mirror_loop_keys) (simp add: dict_keys_def)
  then show "dict_keys m = [0..<length lms]" by simp
  from k show "distinct (dict_keys m)" by simp
  from k show "set (dict_keys m) = {i. i < length lms}" by auto
  from k have "length (dict_keys m) = length lms" by simp
  then show "length m = length lms" by (simp add: dict_keys_def)
qed

theorem mirror_keys_exact_witness:
  "finite_landmark demo_landmark
   \<and> create_mirrored_landmarks (demo_visualizer 10) [demo_landmark, demo_landmark] (100, 100, 3)
       = Inr [(0, (60, 50)), (1, (60, 50))]
   \<and> dict_keys [(0::nat, (60::int, 50::int)), (1, (60, 50))] = [0..<length [demo_landmark, demo_landmark]]"
proof -
  have t: "trunc 50 = 50" by (simp add: trunc_def)
  have a: "\<forall>lm \<in> set [demo_landmark, demo_landmark]. finite_landmark lm"
    by (simp add: demo_landmark_def finite_landmark_def)
  have r: "create_mirrored_landmarks (demo_visualizer 10) [demo_landmark, demo_landmark] (100, 100, 3)
       = Inr [(0, (60, 50)), (1, (60, 50))]"
    by (simp add: create_mirrored_landmarks_def mirror_landmark_def demo_landmark_def
        demo_visualizer_def PoseVisualizer_def t)
  from mirror_keys_exact [of "[demo_landmark, demo_landmark]" "demo_visualizer 10" 100 100 3] a r
  show ?thesis by simp
qed












section \<open>Properties of the renderer and the compositor\<close>

lemma after_calls_Nil: "after_calls lib img [] w = w"
  by (simp add: after_calls_def)

lemma after_calls_append:
  "after_calls lib img (cs @ ds) w = after_calls lib img ds (after_calls lib img cs w)"
proof (cases "img < length (heap w)")
  case True
  then show ?thesis by (simp add: after_calls_def)
next
  case False
  then have "length (heap w) \<le> img" by simp
  then show ?thesis by (simp add: after_calls_def list_update_beyond)
qed

lemma after_calls_Cons:
  "after_calls lib img (c # cs) w = after_calls lib img cs (after_calls lib img [c] w)"
  using after_calls_append [of lib img "[c]" cs w] by simp

lemma circle_after_calls:
  "circle lib img center r col t w = after_calls lib img [Circle img center r col t] w"
  by (simp add: circle_def after_calls_def)

lemma line_after_calls:
  "line lib img p q col t w = after_calls lib img [Line img p q col t] w"
  by (simp add: line_def after_calls_def)

lemma draw_circles_eq:
  "draw_circles lib self replica ps w =
     after_calls lib replica
       (map (\<lambda>p. Circle replica p (circle_radius self) (landmark_color self) (- 1)) ps) w"
proof (induction ps arbitrary: w)
  case Nil
  show ?case by (simp add: after_calls_Nil)
next
  case (Cons p ps)
  show ?case
    by (simp add: Cons.IH circle_after_calls after_calls_Cons [symmetric])
qed

lemma dict_contains_map_of: "dict_contains d k = (map_of d k \<noteq> None)"
  by (simp add: dict_contains_def map_of_eq_None_iff)

lemma draw_lines_eq:
  "draw_lines lib self replica ml cs w = (Inr (), after_calls lib replica (line_calls self replica ml cs) w)"
proof (induction cs arbitrary: w)
  case Nil
  show ?case by (simp add: line_calls_def after_calls_Nil)
next
  case (Cons conn cs)
  obtain a b where conn: "conn = (a, b)" by (cases conn)
  have split: "line_calls self replica ml (conn # cs) =
      line_call_of self replica ml conn @ line_calls self replica ml cs"
    by (simp add: line_calls_def)
  show ?case
  proof (cases "map_of ml a")
    case None
    then show ?thesis
      by (simp add: conn Cons.IH dict_contains_map_of line_calls_def line_call_of_def)
  next
    case (Some p)
    note p = this
    show ?thesis
    proof (cases "map_of ml b")
      case None
      then show ?thesis
        using p by (simp add: conn Cons.IH dict_contains_map_of line_calls_def line_call_of_def)
    next
      case (Some q)
      have one: "line_call_of self replica ml conn =
          [Line replica p q (connection_color self) (line_thickness self)]"
        using p Some by (simp add: conn line_call_of_def)
      have "draw_lines lib self replica ml (conn # cs) w =
          (Inr (), after_calls lib replica (line_calls self replica ml cs)
             (after_calls lib replica [Line replica p q (connection_color self) (line_thickness self)] w))"
        using p Some
        by (simp add: conn Cons.IH dict_contains_map_of dict_getitem_def line_after_calls)
      then show ?thesis
        by (simp add: split one after_calls_Cons [symmetric])
    qed
  qed
qed

lemma draw_mirrored_pose_eq:
  "draw_mirrored_pose lib self frame ml conns w =
     (Inr (length (heap w)),
      w\<lparr>heap := heap w @
            [fold (apply_call lib)
               (circle_calls self (length (heap w)) ml @ line_calls self (length (heap w)) ml conns)
               (zeros_like (heap w ! frame))],
        drawn := drawn w @ circle_calls self (length (heap w)) ml
                   @ line_calls self (length (heap w)) ml conns\<rparr>)"
  by (simp add: draw_mirrored_pose_def np_zeros_like_def alloc_def draw_circles_eq draw_lines_eq
      after_calls_def circle_calls_def)








lemma uint_saturate_u8: "0 \<le> n \<Longrightarrow> uint (saturate_u8 n) = min 255 n"
  by (simp add: saturate_u8_def uint_word_of_int take_bit_eq_mod)

lemma saturate_u8_uint: "saturate_u8 (uint p) = p"
proof -
  have "uint p < 2 ^ LENGTH(8)" by (rule uint_lt2p)
  then have "uint p \<le> 255" by simp
  then show ?thesis by (simp add: saturate_u8_def)
qed

lemma map2_zero_right:
  "length ys = length xs \<Longrightarrow> \<forall>q \<in> set ys. q = 0 \<Longrightarrow>
   map2 (\<lambda>p q. saturate_u8 (uint p + uint q)) xs ys = xs"
proof (induction xs arbitrary: ys)
  case Nil
  then show ?case by simp
next
  case (Cons p xs)
  then obtain q qs where "ys = q # qs" by (cases ys) simp_all
  with Cons show ?case by (simp add: saturate_u8_uint)
qed

lemma map2_sat_commute:
  "map2 (\<lambda>p q. saturate_u8 (uint p + uint q)) xs ys
     = map2 (\<lambda>p q. saturate_u8 (uint p + uint q)) ys xs"
proof (induction xs arbitrary: ys)
  case Nil
  show ?case by simp
next
  case (Cons p xs)
  show ?case by (cases ys) (simp_all add: Cons.IH add.commute)
qed

lemma cv2_add_same_dims:
  assumes "shape a = shape b" and "length (data a) = length (data b)"
  shows "cv2_add a b = Inr \<lparr>shape = shape a,
            data = map2 (\<lambda>p q. saturate_u8 (uint p + uint q)) (data a) (data b)\<rparr>"
  using assms by (simp add: cv2_add_def)

lemma cv2_add_zeros_like: "cv2_add a (zeros_like a) = Inr a"
proof -
  have "map2 (\<lambda>p q. saturate_u8 (uint p + uint q)) (data a) (replicate (length (data a)) 0) = data a"
    by (rule map2_zero_right) simp_all
  then show ?thesis by (cases a) (simp add: cv2_add_def zeros_like_def)
qed

text \<open>
  Claim C4. For a frame and a canvas of identical dimensions \<open>create_composite\<close> returns
  an array of the same dimensions whose every channel is \<open>min 255 (frame + canvas)\<close>; the
  result is the same with the arguments exchanged; the result is a new array, both inputs
  keep their contents and nothing else of the world changes.
\<close>

theorem compositor_saturating_add:
  assumes "frame < length (heap w)" and "canvas < length (heap w)"
    and "shape (heap w ! frame) = shape (heap w ! canvas)"
    and "length (data (heap w ! frame)) = length (data (heap w ! canvas))"
  shows "\<exists>out w'. create_composite frame canvas w = (Inr out, w')
      \<and> shape (heap w' ! out) = shape (heap w ! frame)
      \<and> length (data (heap w' ! out)) = length (data (heap w ! frame))
      \<and> (\<forall>k < length (data (heap w ! frame)).
            uint (data (heap w' ! out) ! k)
              = min 255 (uint (data (heap w ! frame) ! k) + uint (data (heap w ! canvas) ! k)))
      \<and> (\<exists>out2 w2. create_composite canvas frame w = (Inr out2, w2)
            \<and> heap w2 ! out2 = heap w' ! out)
      \<and> out = length (heap w)
      \<and> w' = w\<lparr>heap := heap w @ [heap w' ! out]\<rparr>
      \<and> heap w' ! frame = heap w ! frame
      \<and> heap w' ! canvas = heap w ! canvas"
proof -
  let ?f = "heap w ! frame" and ?c = "heap w ! canvas"
  let ?sum = "\<lambda>a b. \<lparr>shape = shape a,
            data = map2 (\<lambda>p q. saturate_u8 (uint p + uint q)) (data a) (data b)\<rparr>"
  let ?w' = "w\<lparr>heap := heap w @ [?sum ?f ?c]\<rparr>"
  have fc: "cv2_add ?f ?c = Inr (?sum ?f ?c)"
    using assms(3,4) by (rule cv2_add_same_dims)
  have cf: "cv2_add ?c ?f = Inr (?sum ?c ?f)"
    using assms(3,4) by (intro cv2_add_same_dims) simp_all
  have comm: "?sum ?c ?f = ?sum ?f ?c"
    using assms(3) map2_sat_commute [of "data ?c" "data ?f"] by simp
  have r1: "create_composite frame canvas w = (Inr (length (heap w)), ?w')"
    by (simp add: create_composite_def fc alloc_def)
  have r2: "create_composite canvas frame w = (Inr (length (heap w)), ?w')"
    by (simp add: create_composite_def cf comm alloc_def)
  have chan: "uint (data (heap ?w' ! length (heap w)) ! k)
              = min 255 (uint (data ?f ! k) + uint (data ?c ! k))"
    if "k < length (data ?f)" for k
    using that assms(4) by (simp add: uint_saturate_u8)
  show ?thesis
  proof (intro exI conjI)
    show "create_composite frame canvas w = (Inr (length (heap w)), ?w')" by (rule r1)
    show "shape (heap ?w' ! length (heap w)) = shape ?f" by simp
    show "length (data (heap ?w' ! length (heap w))) = length (data ?f)"
      using assms(4) by simp
    show "\<forall>k < length (data ?f). uint (data (heap ?w' ! length (heap w)) ! k)
              = min 255 (uint (data ?f ! k) + uint (data ?c ! k))"
      using chan by blast
    show "create_composite canvas frame w = (Inr (length (heap w)), ?w')" by (rule r2)
    show "heap ?w' ! length (heap w) = heap ?w' ! length (heap w)" by simp
    show "length (heap w) = length (heap w)" by simp
    show "?w' = w\<lparr>heap := heap w @ [heap ?w' ! length (heap w)]\<rparr>" by simp
    show "heap ?w' ! frame = ?f" using assms(1) by (simp add: nth_append)
    show "heap ?w' ! canvas = ?c" using assms(2) by (simp add: nth_append)
  qed
qed

theorem compositor_saturating_add_witness:
  "(0::nat) < length (heap demo_world) \<and> (1::nat) < length (heap demo_world)
   \<and> shape (heap demo_world ! 0) = shape (heap demo_world ! 1)
   \<and> length (data (heap demo_world ! 0)) = length (data (heap demo_world ! 1))
   \<and> (\<exists>out w'. create_composite 0 1 demo_world = (Inr out, w')
         \<and> uint (data (heap w' ! out) ! 0) = 255
         \<and> uint (data (heap w' ! out) ! 1) = 30
         \<and> uint (data (heap w' ! out) ! 2) = 255)"
proof -
  have a: "(0::nat) < length (heap demo_world)" "(1::nat) < length (heap demo_world)"
    "shape (heap demo_world ! 0) = shape (heap demo_world ! 1)"
    "length (data (heap demo_world ! 0)) = length (data (heap demo_world ! 1))"
    by (simp_all add: demo_world_def demo_frame_def demo_canvas_def)
  from compositor_saturating_add [OF a]
  obtain out w' where r: "create_composite 0 1 demo_world = (Inr out, w')"
    and ch: "\<forall>k < length (data (heap demo_world ! 0)).
            uint (data (heap w' ! out) ! k)
              = min 255 (uint (data (heap demo_world ! 0) ! k)
                          + uint (data (heap demo_world ! 1) ! k))"
    by blast
  have n: "length (data (heap demo_world ! 0)) = 3"
    by (simp add: demo_world_def demo_frame_def)
  have "uint (data (heap w' ! out) ! 0) = 255" "uint (data (heap w' ! out) ! 1) = 30"
    "uint (data (heap w' ! out) ! 2) = 255"
    using ch [rule_format, of 0] ch [rule_format, of 1] ch [rule_format, of 2]
    by (simp_all add: n) (simp_all add: demo_world_def demo_frame_def demo_canvas_def)
  with r a show ?thesis by blast
qed

text \<open>
  Claim C6. For an empty list of landmarks the mirror transform returns the empty map
  without error; the renderer on the empty map makes no drawing call and returns the
  all-zero canvas of the frame's shape; the composite of the frame and this canvas is
  equal to the frame.
\<close>

theorem empty_pose_composite_is_frame:
  assumes "frame < length (heap w)"
  shows "create_mirrored_landmarks self [] frame_shape = Inr []
      \<and> (\<exists>replica w1. draw_mirrored_pose lib self frame [] conns w = (Inr replica, w1)
            \<and> drawn w1 = drawn w
            \<and> heap w1 ! replica = zeros_like (heap w ! frame)
            \<and> shape (heap w1 ! replica) = shape (heap w ! frame)
            \<and> data (heap w1 ! replica) = replicate (length (data (heap w ! frame))) 0
            \<and> (\<exists>composite w2. create_composite frame replica w1 = (Inr composite, w2)
                  \<and> heap w2 ! composite = heap w ! frame
                  \<and> heap w2 ! frame = heap w ! frame))"
proof -
  let ?r = "length (heap w)"
  let ?z = "zeros_like (heap w ! frame)"
  let ?w1 = "w\<lparr>heap := heap w @ [?z]\<rparr>"
  let ?w2 = "w\<lparr>heap := heap w @ [?z, heap w ! frame]\<rparr>"
  have m: "create_mirrored_landmarks self [] frame_shape = Inr []"
    by (simp add: create_mirrored_landmarks_def split: prod.splits)
  have nolines: "line_calls self ?r [] conns = []"
    by (induction conns) (simp_all add: line_calls_def line_call_of_def)
  have d: "draw_mirrored_pose lib self frame [] conns w = (Inr ?r, ?w1)"
    by (simp add: draw_mirrored_pose_eq nolines circle_calls_def dict_values_def)
  have c: "create_composite frame ?r ?w1 = (Inr (Suc ?r), ?w2)"
    using assms by (simp add: create_composite_def nth_append cv2_add_zeros_like alloc_def)
  show ?thesis
  proof (intro conjI exI)
    show "create_mirrored_landmarks self [] frame_shape = Inr []" by (rule m)
    show "draw_mirrored_pose lib self frame [] conns w = (Inr ?r, ?w1)" by (rule d)
    show "drawn ?w1 = drawn w" by simp
    show "heap ?w1 ! ?r = ?z" by simp
    show "shape (heap ?w1 ! ?r) = shape (heap w ! frame)" by (simp add: zeros_like_def)
    show "data (heap ?w1 ! ?r) = replicate (length (data (heap w ! frame))) 0"
      by (simp add: zeros_like_def)
    show "create_composite frame ?r ?w1 = (Inr (Suc ?r), ?w2)" by (rule c)
    show "heap ?w2 ! Suc ?r = heap w ! frame" by (simp add: nth_append)
    show "heap ?w2 ! frame = heap w ! frame" using assms by (simp add: nth_append)
  qed
qed

theorem empty_pose_composite_is_frame_witness:
  "(0::nat) < length (heap demo_world)
   \<and> create_mirrored_landmarks (demo_visualizer 10) [] (100, 100, 3) = Inr []
   \<and> (\<exists>replica w1. draw_mirrored_pose demo_lib (demo_visualizer 10) 0 [] [(0, 1)] demo_world
            = (Inr replica, w1)
         \<and> data (heap w1 ! replica) = [0, 0, 0]
         \<and> (\<exists>composite w2. create_composite 0 replica w1 = (Inr composite, w2)
               \<and> heap w2 ! composite = demo_frame))"
proof -
  have a: "(0::nat) < length (heap demo_world)" by (simp add: demo_world_def)
  have f: "heap demo_world ! 0 = demo_frame" by (simp add: demo_world_def)
  have n: "replicate (length (data demo_frame)) (0 :: 8 word) = [0, 0, 0]"
    by (simp add: demo_frame_def)
  from empty_pose_composite_is_frame [OF a, of "demo_visualizer 10" "(100, 100, 3)" demo_lib "[(0, 1)]"]
  show ?thesis using a by (simp add: f n, blast)
qed


section \<open>Properties of the processing loop and the entry points\<close>

lemma steady_refl: "steady w w"
  by (simp add: steady_def)

lemma steady_trans: "steady w w1 \<Longrightarrow> steady w1 w2 \<Longrightarrow> steady w w2"
  by (simp add: steady_def)

lemma and_then_steady:
  assumes "\<And>w. steady w (snd (m w))" and "\<And>a w. steady w (snd (f a w))"
  shows "steady w (snd (and_then m f w))"
proof (cases "m w")
  case (Pair r w1)
  have s1: "steady w w1" using assms(1) [of w] Pair by simp
  show ?thesis
  proof (cases r)
    case (Inl e)
    then show ?thesis using Pair s1 by (simp add: and_then_def)
  next
    case (Inr v)
    have "steady w1 (snd (f v w1))" by (rule assms(2))
    then show ?thesis using Pair Inr s1 by (auto simp: and_then_def intro: steady_trans)
  qed
qed

lemma return_steady: "steady w (snd (return v w))"
  by (simp add: return_def steady_def)

lemma read_frame_steady: "steady w (snd (read_frame env w))"
  by (simp add: read_frame_def steady_def alloc_def Let_def split: sum.splits option.splits)

lemma detect_landmarks_steady: "steady w (snd (detect_landmarks env frame w))"
  by (simp add: detect_landmarks_def steady_def)

lemma cv2_imshow_steady: "steady w (snd (cv2_imshow env winname img w))"
  by (simp add: cv2_imshow_def steady_def)

lemma cv2_waitKey_steady: "steady w (snd (cv2_waitKey env delay w))"
  by (simp add: cv2_waitKey_def steady_def)

lemma draw_mirrored_pose_steady: "steady w (snd (draw_mirrored_pose lib self frame ml conns w))"
  by (simp add: draw_mirrored_pose_eq steady_def)

lemma create_composite_steady: "steady w (snd (create_composite frame replica w))"
  by (simp add: create_composite_def steady_def alloc_def split: sum.splits)

lemma show_mirrored_steady: "steady w (snd (show_mirrored env pv winname frame lms w))"
proof (cases "create_mirrored_landmarks pv lms (frame_shape_of (heap w ! frame))")
  case (Inl e)
  then show ?thesis by (simp add: show_mirrored_def steady_refl)
next
  case (Inr ml)
  then show ?thesis
    by (simp add: show_mirrored_def)
       (intro and_then_steady draw_mirrored_pose_steady create_composite_steady cv2_imshow_steady)
qed

lemma loop_body_steady: "steady w (snd (loop_body env pv winname w))"
  unfolding loop_body_def
proof (intro and_then_steady read_frame_steady)
  fix r w
  show "steady w (snd ((case r of None \<Rightarrow> return Break
        | Some frame \<Rightarrow>
            and_then (detect_landmarks env frame)
              (\<lambda>pose_landmarks.
                 and_then
                   (case pose_landmarks of
                      Some lms \<Rightarrow> show_mirrored env pv winname frame lms
                    | None \<Rightarrow> cv2_imshow env winname frame)
                   (\<lambda>u. and_then (cv2_waitKey env 30)
                      (\<lambda>key. if key AND 255 = 113 then return Break else return Continue)))) w))"
  proof (cases r)
    case None
    then show ?thesis by (simp add: return_steady)
  next
    case (Some frame)
    show ?thesis
      unfolding Some option.case
    proof (intro and_then_steady detect_landmarks_steady cv2_waitKey_steady)
      fix pl w
      show "steady w (snd ((case pl of None \<Rightarrow> cv2_imshow env winname frame
            | Some lms \<Rightarrow> show_mirrored env pv winname frame lms) w))"
        by (cases pl) (simp_all add: cv2_imshow_steady show_mirrored_steady)
    next
      fix key u :: int and w
      show "steady w (snd ((if key AND 255 = 113 then return Break else return Continue) w))"
        by (simp add: return_steady)
    qed
  qed
qed

lemma loop_steady:
  assumes "loop env pv winname w = Some rw"
  shows "steady w (snd rw)"
proof -
  have step: "steady w (snd rw)"
    if ih: "\<And>env pv winname w rw. f env pv winname w = Some rw \<Longrightarrow> steady w (snd rw)"
      and eq: "(case loop_body env pv winname w of
                  (Inl e, w1) \<Rightarrow> Some (Inl e, w1)
                | (Inr Continue, w1) \<Rightarrow> f env pv winname w1
                | (Inr Break, w1) \<Rightarrow> Some (Inr (), w1)) = Some rw"
    for f env pv winname w rw
  proof -
    obtain r w1 where b: "loop_body env pv winname w = (r, w1)"
      by (cases "loop_body env pv winname w")
    have s: "steady w w1" using loop_body_steady [of w env pv winname] b by simp
    show ?thesis
    proof (cases r)
      case (Inl e)
      then have "rw = (Inl e, w1)" using eq b by simp
      then show ?thesis using s by simp
    next
      case (Inr ctl)
      show ?thesis
      proof (cases ctl)
        case Continue
        then have "f env pv winname w1 = Some rw" using eq b Inr by simp
        then have "steady w1 (snd rw)" by (rule ih)
        with s show ?thesis by (rule steady_trans)
      next
        case Break
        then have "rw = (Inr (), w1)" using eq b Inr by simp
        then show ?thesis using s by simp
      qed
    qed
  qed
  show ?thesis
    by (rule loop.raw_induct [where P = "\<lambda>env pv winname w rw. steady w (snd rw)", OF step assms])
qed

lemma loop_body_reads: "reads (snd (loop_body env pv winname w)) = Suc (reads w)"
proof -
  have r: "reads (snd (read_frame env w)) = Suc (reads w)"
    by (simp add: read_frame_def alloc_def Let_def split: sum.splits option.splits)
  have keep: "reads (snd (and_then m f v)) = reads v"
    if "\<And>v. reads (snd (m v)) = reads v" and "\<And>a v. reads (snd (f a v)) = reads v"
    for m :: "'a action" and f :: "'a \<Rightarrow> 'b action" and v
  proof (cases "m v")
    case (Pair r v1)
    have "reads v1 = reads v" using that(1) [of v] Pair by simp
    then show ?thesis using Pair that(2) by (cases r) (simp_all add: and_then_def)
  qed
  have d: "reads (snd (detect_landmarks env frame v)) = reads v" for frame v
    by (simp add: detect_landmarks_def)
  have i: "reads (snd (cv2_imshow env winname img v)) = reads v" for img v
    by (simp add: cv2_imshow_def)
  have k: "reads (snd (cv2_waitKey env delay v)) = reads v" for delay v
    by (simp add: cv2_waitKey_def)
  have dr: "reads (snd (draw_mirrored_pose lib self frame ml conns v)) = reads v"
    for lib self frame ml conns v
    by (simp add: draw_mirrored_pose_eq)
  have cc: "reads (snd (create_composite frame replica v)) = reads v" for frame replica v
    by (simp add: create_composite_def alloc_def split: sum.splits)
  have sm: "reads (snd (show_mirrored env pv winname frame lms v)) = reads v" for frame lms v
  proof (cases "create_mirrored_landmarks pv lms (frame_shape_of (heap v ! frame))")
    case (Inl e)
    then show ?thesis by (simp add: show_mirrored_def)
  next
    case (Inr ml)
    then show ?thesis
      by (simp add: show_mirrored_def) (intro keep dr cc i)
  qed
  have rest: "reads (snd ((case r of None \<Rightarrow> return Break
        | Some frame \<Rightarrow>
            and_then (detect_landmarks env frame)
              (\<lambda>pose_landmarks.
                 and_then
                   (case pose_landmarks of
                      Some lms \<Rightarrow> show_mirrored env pv winname frame lms
                    | None \<Rightarrow> cv2_imshow env winname frame)
                   (\<lambda>u. and_then (cv2_waitKey env 30)
                      (\<lambda>key. if key AND 255 = 113 then return Break else return Continue)))) v))
      = reads v" for r v
  proof (cases r)
    case None
    then show ?thesis by (simp add: return_def)
  next
    case (Some frame)
    show ?thesis
      unfolding Some option.case
    proof (intro keep d k)
      fix pl v
      show "reads (snd ((case pl of None \<Rightarrow> cv2_imshow env winname frame
            | Some lms \<Rightarrow> show_mirrored env pv winname frame lms) v)) = reads v"
        by (cases pl) (simp_all add: i sm)
    next
      fix key u :: int and v
      show "reads (snd ((if key AND 255 = 113 then return Break else return Continue) v)) = reads v"
        by (simp add: return_def)
    qed
  qed
  obtain q w1 where rf: "read_frame env w = (q, w1)" by (cases "read_frame env w")
  have w1: "reads w1 = Suc (reads w)" using r rf by simp
  show ?thesis
    using rf w1 rest [of _ w1]
    by (cases q) (simp_all add: loop_body_def and_then_def)
qed

lemma loop_body_stops:
  assumes "\<not> is_frame (cap_read env (reads w))"
  shows "fst (loop_body env pv winname w) \<noteq> Inr Continue"
proof (cases "cap_read env (reads w)")
  case (Inl e)
  then show ?thesis
    by (simp add: loop_body_def and_then_def read_frame_def Let_def)
next
  case (Inr r)
  then have "r = None" using assms by (cases r) simp_all
  then show ?thesis
    using Inr by (simp add: loop_body_def and_then_def read_frame_def Let_def return_def)
qed

lemma loop_terminates:
  "\<not> is_frame (cap_read env n) \<Longrightarrow> reads w \<le> n \<Longrightarrow> loop env pv winname w \<noteq> None"
proof (induction "n - reads w" arbitrary: w)
  case 0
  then have "reads w = n" by simp
  then have stop: "fst (loop_body env pv winname w) \<noteq> Inr Continue"
    using "0.prems"(1) loop_body_stops by simp
  obtain r w1 where b: "loop_body env pv winname w = (r, w1)"
    by (cases "loop_body env pv winname w")
  show ?case
  proof (cases r)
    case (Inl e)
    then show ?thesis using b by (subst loop.simps) simp
  next
    case (Inr ctl)
    then have "ctl = Break" using stop b by (cases ctl) simp_all
    then show ?thesis using b Inr by (subst loop.simps) simp
  qed
next
  case (Suc k)
  obtain r w1 where b: "loop_body env pv winname w = (r, w1)"
    by (cases "loop_body env pv winname w")
  have w1: "reads w1 = Suc (reads w)"
    using loop_body_reads [of env pv winname w] b by simp
  show ?case
  proof (cases r)
    case (Inl e)
    then show ?thesis using b by (subst loop.simps) simp
  next
    case (Inr ctl)
    show ?thesis
    proof (cases ctl)
      case Break
      then show ?thesis using b Inr by (subst loop.simps) simp
    next
      case Continue
      have "k = n - reads w1" using Suc.hyps(2) w1 by simp
      moreover have "reads w1 \<le> n" using Suc.hyps(2) w1 by simp
      ultimately have "loop env pv winname w1 \<noteq> None"
        using Suc.hyps(1) Suc.prems(1) by blast
      then show ?thesis using b Inr Continue by (subst loop.simps) simp
    qed
  qed
qed

lemma loop_first_read_none:
  assumes "cap_read env (reads w) = Inr None"
  shows "loop env pv winname w = Some (Inr (), w\<lparr>reads := Suc (reads w)\<rparr>)"
proof -
  have "loop_body env pv winname w = (Inr Break, w\<lparr>reads := Suc (reads w)\<rparr>)"
    using assms by (simp add: loop_body_def and_then_def read_frame_def Let_def return_def)
  then show ?thesis by (subst loop.simps) simp
qed

lemma try_block_result:
  assumes "try_block env a w = Some (r, bound, w1)"
  shows "steady w w1" and "bound = cap_isOpened env (select_source a)"
proof -
  show "bound = cap_isOpened env (select_source a)"
    using assms
    by (auto simp: try_block_def VideoSource_def return_def raise_def Let_def
        split: if_splits option.splits prod.splits)
  show "steady w w1"
  proof (cases "cap_isOpened env (select_source a) \<and> pose_init env = None \<and> namedWindow env = None")
    case True
    then obtain rw where l: "loop env
        (PoseVisualizer default_landmark_color default_connection_color (radius a) (thickness a) (offset a))
        window_name w = Some rw" and rw: "rw = (r, w1)"
      using assms
      by (auto simp: try_block_def VideoSource_def return_def Let_def split: option.splits prod.splits)
    from loop_steady [OF l] rw show ?thesis by simp
  next
    case False
    then have "w1 = w"
      using assms
      by (auto simp: try_block_def VideoSource_def return_def raise_def Let_def
          split: if_splits option.splits prod.splits)
    then show ?thesis by (simp add: steady_refl)
  qed
qed

lemma main_after_open:
  assumes "cap_isOpened env (select_source a)" and "main env a = Some (r, w)"
  shows "releases w = 1" and "destroyed w = 1" and "\<forall>e. r = Inl e \<longrightarrow> \<not> is_Exception e"
    and "\<forall>e bound w1. try_block env a init_world = Some (Inl e, bound, w1) \<and> is_Exception e
           \<longrightarrow> r = Inr () \<and> console w = [PrintError e, PrintClosed]"
proof -
  obtain r0 bound w0 where t: "try_block env a init_world = Some (r0, bound, w0)"
    and m: "(r, w) = finally_block bound (except_block (r0, w0))"
    using assms(2) by (auto simp: main_def split: option.splits prod.splits)
  have s: "steady init_world w0" and b: "bound" using try_block_result [OF t] assms(1) by simp_all
  have z: "releases w0 = 0" "destroyed w0 = 0" "console w0 = []"
    using s by (simp_all add: steady_def init_world_def)
  show "releases w = 1"
    using m b z by (cases r0) (auto simp: finally_block_def except_block_def release_def
        destroyAllWindows_def print_def split: if_splits)
  show "destroyed w = 1"
    using m b z by (cases r0) (auto simp: finally_block_def except_block_def release_def
        destroyAllWindows_def print_def split: if_splits)
  show "\<forall>e. r = Inl e \<longrightarrow> \<not> is_Exception e"
    using m b by (cases r0) (auto simp: finally_block_def except_block_def split: if_splits)
  show "\<forall>e bound w1. try_block env a init_world = Some (Inl e, bound, w1) \<and> is_Exception e
           \<longrightarrow> r = Inr () \<and> console w = [PrintError e, PrintClosed]"
    using m b z t by (auto simp: finally_block_def except_block_def release_def
        destroyAllWindows_def print_def)
qed

lemma main_terminates:
  assumes "\<not> is_frame (cap_read env n)"
  shows "main env a \<noteq> None"
proof -
  let ?pv = "PoseVisualizer default_landmark_color default_connection_color
      (radius a) (thickness a) (offset a)"
  have "loop env ?pv window_name init_world \<noteq> None"
    using assms by (rule loop_terminates) (simp add: init_world_def)
  then obtain r w where "loop env ?pv window_name init_world = Some (r, w)" by auto
  then show ?thesis
    by (simp add: main_def try_block_def VideoSource_def return_def raise_def Let_def
        split: option.splits)
qed

lemma app_result:
  assumes "app env = Some (r, w)"
  shows "console w = []" and "releases w = (case r of Inl e \<Rightarrow> 0 | Inr u \<Rightarrow> 1)"
proof -
  have both: "console w = [] \<and> releases w = (case r of Inl e \<Rightarrow> 0 | Inr u \<Rightarrow> 1)"
  proof (cases "pose_init env = None \<and> cap_isOpened env app_source")
    case True
    then obtain r1 w1 where l: "loop env (PoseVisualizer (255, 0, 0) (0, 0, 255) 3 2 150)
        app_window init_world = Some (r1, w1)"
      and fin: "(r, w) = (case r1 of Inl e \<Rightarrow> (Inl e, w1)
                          | Inr u \<Rightarrow> (Inr (), destroyAllWindows (release w1)))"
      using assms
      by (auto simp: app_def VideoSource_def return_def Let_def
          split: option.splits prod.splits sum.splits)
    have "steady init_world w1" using loop_steady [OF l] by simp
    then have z: "releases w1 = 0" "console w1 = []"
      by (simp_all add: steady_def init_world_def)
    show ?thesis
      using fin z by (cases r1) (simp_all add: release_def destroyAllWindows_def)
  next
    case False
    then show ?thesis
      using assms
      by (auto simp: app_def VideoSource_def return_def raise_def init_world_def
          split: option.splits if_splits)
  qed
  from both show "console w = []" and "releases w = (case r of Inl e \<Rightarrow> 0 | Inr u \<Rightarrow> 1)"
    by simp_all
qed

text \<open>
  Claim C9. When the first read of the source returns no frame, the loop ends at once;
  both entry points, once the source is open and the loop is reached, return normally
  after one read, no call of the detector and exactly one call of \<open>release\<close>.
\<close>

theorem exhausted_source_no_detection:
  assumes "cap_read env 0 = Inr None"
  shows "(\<forall>pv winname. loop env pv winname init_world = Some (Inr (), init_world\<lparr>reads := 1\<rparr>))
     \<and> (cap_isOpened env (select_source a) \<and> pose_init env = None \<and> namedWindow env = None \<longrightarrow>
          (\<exists>w. main env a = Some (Inr (), w)
             \<and> reads w = 1 \<and> detections w = 0 \<and> releases w = 1 \<and> destroyed w = 1))
     \<and> (pose_init env = None \<and> cap_isOpened env app_source \<longrightarrow>
          (\<exists>w. app env = Some (Inr (), w)
             \<and> reads w = 1 \<and> detections w = 0 \<and> releases w = 1 \<and> destroyed w = 1))"
proof -
  have l: "loop env pv winname init_world = Some (Inr (), init_world\<lparr>reads := 1\<rparr>)"
    for pv winname
    using loop_first_read_none [of env init_world pv winname] assms
    by (simp add: init_world_def)
  have m: "\<exists>w. main env a = Some (Inr (), w)
             \<and> reads w = 1 \<and> detections w = 0 \<and> releases w = 1 \<and> destroyed w = 1"
    if "cap_isOpened env (select_source a) \<and> pose_init env = None \<and> namedWindow env = None"
    using that
    by (simp add: main_def try_block_def VideoSource_def return_def Let_def l
        except_block_def finally_block_def release_def destroyAllWindows_def print_def)
       (simp add: init_world_def)
  have p: "\<exists>w. app env = Some (Inr (), w)
             \<and> reads w = 1 \<and> detections w = 0 \<and> releases w = 1 \<and> destroyed w = 1"
    if "pose_init env = None \<and> cap_isOpened env app_source"
    using that
    by (simp add: app_def VideoSource_def return_def Let_def l
        release_def destroyAllWindows_def)
       (simp add: init_world_def)
  show ?thesis using l m p by blast
qed

theorem exhausted_source_no_detection_witness:
  "cap_read demo_env 0 = Inr None
   \<and> cap_isOpened demo_env (select_source demo_args) \<and> pose_init demo_env = None
   \<and> namedWindow demo_env = None \<and> cap_isOpened demo_env app_source
   \<and> (\<exists>w. main demo_env demo_args = Some (Inr (), w)
         \<and> reads w = 1 \<and> detections w = 0 \<and> releases w = 1 \<and> destroyed w = 1)
   \<and> (\<exists>w. app demo_env = Some (Inr (), w)
         \<and> reads w = 1 \<and> detections w = 0 \<and> releases w = 1 \<and> destroyed w = 1)"
proof -
  have a: "cap_read demo_env 0 = Inr None" by (simp add: demo_env_def)
  have b: "cap_isOpened demo_env (select_source demo_args) \<and> pose_init demo_env = None
      \<and> namedWindow demo_env = None"
    by (simp add: demo_env_def)
  have c: "pose_init demo_env = None \<and> cap_isOpened demo_env app_source"
    by (simp add: demo_env_def)
  from exhausted_source_no_detection [OF a, of demo_args] a b c
  show ?thesis by blast
qed

text \<open>
  Claim C3 asks that \<open>release\<close> is invoked and no exception propagates on every exit path,
  the failure to open the source included. The code at two such exits: \<open>main\<close> with a
  source that cannot be opened prints the \<open>ValueError\<close> and then leaves with
  \<open>UnboundLocalError\<close> raised in its \<open>finally\<close> block, nothing released; the script
  \<open>app\<close>, which has no handler, leaves with the detector's exception, nothing released
  and nothing printed.
\<close>

theorem release_missed_on_failure:
  "main closed_env demo_args
      = Some (Inl UnboundLocalError, init_world\<lparr>console := [PrintError ValueError]\<rparr>)
   \<and> releases (init_world\<lparr>console := [PrintError ValueError]\<rparr>) = 0
   \<and> app raising_env
      = Some (Inl (ExternalError 1),
              init_world\<lparr>heap := [demo_frame], reads := 1, detections := 1\<rparr>)
   \<and> releases (init_world\<lparr>heap := [demo_frame], reads := 1, detections := 1\<rparr>) = 0
   \<and> console (init_world\<lparr>heap := [demo_frame], reads := 1, detections := 1\<rparr>) = []"
proof -
  have m: "main closed_env demo_args
      = Some (Inl UnboundLocalError, init_world\<lparr>console := [PrintError ValueError]\<rparr>)"
    by (simp add: main_def try_block_def VideoSource_def raise_def closed_env_def demo_env_def
        except_block_def finally_block_def print_def init_world_def)
  have b: "loop_body raising_env pv app_window init_world
      = (Inl (ExternalError 1), init_world\<lparr>heap := [demo_frame], reads := 1, detections := 1\<rparr>)"
    for pv
    by (simp add: loop_body_def and_then_def read_frame_def detect_landmarks_def alloc_def
        Let_def raising_env_def demo_env_def init_world_def)
  have l: "loop raising_env pv app_window init_world
      = Some (Inl (ExternalError 1), init_world\<lparr>heap := [demo_frame], reads := 1, detections := 1\<rparr>)"
    for pv
    by (subst loop.simps) (simp add: b)
  have vs: "VideoSource raising_env app_source init_world = (Inr (), init_world)"
    by (simp add: VideoSource_def return_def raising_env_def demo_env_def)
  have pi: "pose_init raising_env = None"
    by (simp add: raising_env_def demo_env_def)
  have p: "app raising_env
      = Some (Inl (ExternalError 1), init_world\<lparr>heap := [demo_frame], reads := 1, detections := 1\<rparr>)"
    by (simp add: app_def vs pi l)
  show ?thesis using m p by (simp add: init_world_def)
qed

lemma floor_numeral_div_rat:
  "\<lfloor>(numeral a :: rat) / numeral b\<rfloor> = numeral a div numeral b"
  "\<lfloor>(1 :: rat) / numeral b\<rfloor> = 1 div numeral b"
  using floor_divide_of_int_eq [of "numeral a" "numeral b", where ?'a = rat]
    floor_divide_of_int_eq [of 1 "numeral b", where ?'a = rat]
  by simp_all

lemma trunc_zero_half: "trunc (1 / 2) = 0" "trunc 0 = 0"
  by (simp_all add: trunc_def floor_numeral_div_rat)

lemma dancing_first_iteration:
  "loop_body dancing_env (demo_visualizer 150) window_name init_world =
     (Inr Continue,
      init_world\<lparr>heap := [demo_frame,
                             \<lparr>shape = (1, 1, 3), data = [255, 255, 255]\<rparr>,
                             \<lparr>shape = (1, 1, 3), data = [255, 255, 255]\<rparr>],
                   drawn := [Circle 1 (151, 0) 3 (255, 0, 0) (- 1)],
                   reads := 1, detections := 1,
                   shown := [(window_name, \<lparr>shape = (1, 1, 3), data = [255, 255, 255]\<rparr>)],
                   polls := 1\<rparr>)"
  by (simp add: loop_body_def and_then_def read_frame_def detect_landmarks_def alloc_def
      Let_def dancing_env_def demo_env_def init_world_def show_mirrored_def
      create_mirrored_landmarks_def mirror_landmark_def demo_landmark_def frame_shape_of_def
      demo_frame_def demo_visualizer_def PoseVisualizer_def trunc_zero_half
      draw_mirrored_pose_def np_zeros_like_def zeros_like_def dict_values_def circle_def
      dict_contains_def get_pose_connections_def demo_lib_def flood_def
      default_landmark_color_def default_connection_color_def
      create_composite_def cv2_add_def saturate_u8_def cv2_imshow_def cv2_waitKey_def return_def)

lemma dancing_second_iteration:
  "\<exists>w. loop_body dancing_env (demo_visualizer 150) window_name after_first_iteration = (Inr Break, w)
      \<and> reads w = 2 \<and> detections w = 2 \<and> length (shown w) = 2 \<and> polls w = 2
      \<and> drawn w = [Circle 1 (151, 0) 3 (255, 0, 0) (- 1), Circle 4 (151, 0) 3 (255, 0, 0) (- 1)]"
  by (simp add: loop_body_def and_then_def read_frame_def detect_landmarks_def alloc_def
      Let_def dancing_env_def demo_env_def init_world_def show_mirrored_def
      create_mirrored_landmarks_def mirror_landmark_def demo_landmark_def frame_shape_of_def
      demo_frame_def demo_visualizer_def PoseVisualizer_def trunc_zero_half
      draw_mirrored_pose_def np_zeros_like_def zeros_like_def dict_values_def circle_def
      dict_contains_def get_pose_connections_def demo_lib_def flood_def
      default_landmark_color_def default_connection_color_def after_first_iteration_def
      create_composite_def cv2_add_def saturate_u8_def cv2_imshow_def cv2_waitKey_def return_def)

lemma main_dancing_run:
  "\<exists>w. main dancing_env demo_args = Some (Inr (), w)
      \<and> reads w = 2 \<and> detections w = 2 \<and> length (shown w) = 2
      \<and> releases w = 1 \<and> destroyed w = 1 \<and> console w = [PrintClosed]"
proof -
  have pv: "PoseVisualizer default_landmark_color default_connection_color
      (radius demo_args) (thickness demo_args) (offset demo_args) = demo_visualizer 150"
    by (simp add: demo_visualizer_def demo_args_def)
  obtain w2 where b2: "loop_body dancing_env (demo_visualizer 150) window_name after_first_iteration
        = (Inr Break, w2)"
    and w2: "reads w2 = 2" "detections w2 = 2" "length (shown w2) = 2"
    using dancing_second_iteration by blast
  have "loop dancing_env (demo_visualizer 150) window_name after_first_iteration = Some (Inr (), w2)"
    by (subst loop.simps) (simp add: b2)
  then have l: "loop dancing_env (demo_visualizer 150) window_name init_world = Some (Inr (), w2)"
    by (subst loop.simps)
       (simp add: dancing_first_iteration [folded after_first_iteration_def])
  have s: "steady init_world w2" using loop_steady [OF l] by simp
  have o: "cap_isOpened dancing_env (select_source demo_args)" "pose_init dancing_env = None"
    "namedWindow dancing_env = None"
    by (simp_all add: dancing_env_def demo_env_def)
  have "main dancing_env demo_args =
      Some (Inr (), print PrintClosed (destroyAllWindows (release w2)))"
    by (simp add: main_def try_block_def VideoSource_def return_def o pv l
        except_block_def finally_block_def)
  then show ?thesis
    using w2 s
    by (simp add: print_def destroyAllWindows_def release_def steady_def init_world_def)
qed

lemma main_logs_exception_run:
  "\<exists>w. main raising_env demo_args = Some (Inr (), w)
      \<and> releases w = 1 \<and> destroyed w = 1
      \<and> console w = [PrintError (ExternalError 1), PrintClosed]"
proof -
  have b: "loop_body raising_env pv window_name init_world
      = (Inl (ExternalError 1), init_world\<lparr>heap := [demo_frame], reads := 1, detections := 1\<rparr>)"
    for pv
    by (simp add: loop_body_def and_then_def read_frame_def detect_landmarks_def alloc_def
        Let_def raising_env_def demo_env_def init_world_def)
  have l: "loop raising_env pv window_name init_world
      = Some (Inl (ExternalError 1), init_world\<lparr>heap := [demo_frame], reads := 1, detections := 1\<rparr>)"
    for pv
    by (subst loop.simps) (simp add: b)
  have o: "cap_isOpened raising_env (select_source demo_args)" "pose_init raising_env = None"
    "namedWindow raising_env = None"
    by (simp_all add: raising_env_def demo_env_def)
  have "main raising_env demo_args =
      Some (Inr (), print PrintClosed (destroyAllWindows (release (print (PrintError (ExternalError 1))
              (init_world\<lparr>heap := [demo_frame], reads := 1, detections := 1\<rparr>)))))"
    by (simp add: main_def try_block_def VideoSource_def return_def o l
        except_block_def finally_block_def)
  then show ?thesis
    by (simp add: print_def destroyAllWindows_def release_def init_world_def)
qed

end
